theory Spec2Isabelle
  imports Complex_Main "HOL-Library.Log_Nat"
begin

section \<open>Results of Python code\<close>

text \<open>
  The library under study is \<^verbatim>\<open>bvzdisplaylib/displaylib.py\<close>. Each of its functions is
  embedded as a HOL function of the same name. A Python call either returns a value or
  raises; both are values of the model. The third outcome, \<open>Unmodelled\<close>, marks the inputs
  on which the embedding does not say what Python does (a replacement field with an
  attribute, an index, a conversion or a format specification; the \<^verbatim>\<open>repr\<close> of a float in
  exponent notation). No theorem below draws a conclusion from an \<open>Unmodelled\<close> outcome.

  Strings are lists of 8-bit characters and are read as ASCII text.
\<close>

datatype exn =
  KeyError | ValueError | IndexError | ZeroDivisionError | OverflowError
  | AssertionError | EOFError | SystemExit

datatype 'a outcome = Returns 'a | Raises exn | Unmodelled

fun bind :: "'a outcome \<Rightarrow> ('a \<Rightarrow> 'b outcome) \<Rightarrow> 'b outcome" where
  "bind (Returns x) f = f x"
| "bind (Raises e) f = Raises e"
| "bind Unmodelled f = Unmodelled"

section \<open>The palette\<close>

definition ESC :: char where "ESC = CHR 0x1B"

definition BLACK :: string where "BLACK = ESC # ''[30m''"
definition RED :: string where "RED = ESC # ''[31m''"
definition GREEN :: string where "GREEN = ESC # ''[32m''"
definition YELLOW :: string where "YELLOW = ESC # ''[33m''"
definition BLUE :: string where "BLUE = ESC # ''[34m''"
definition MAGENTA :: string where "MAGENTA = ESC # ''[35m''"
definition CYAN :: string where "CYAN = ESC # ''[36m''"
definition WHITE :: string where "WHITE = ESC # ''[37m''"
definition BRIGHT_RED :: string where "BRIGHT_RED = ESC # ''[91m''"
definition BRIGHT_GREEN :: string where "BRIGHT_GREEN = ESC # ''[92m''"
definition BRIGHT_YELLOW :: string where "BRIGHT_YELLOW = ESC # ''[93m''"
definition BRIGHT_BLUE :: string where "BRIGHT_BLUE = ESC # ''[94m''"
definition BRIGHT_MAGENTA :: string where "BRIGHT_MAGENTA = ESC # ''[95m''"
definition BRIGHT_CYAN :: string where "BRIGHT_CYAN = ESC # ''[96m''"
definition BRIGHT_WHITE :: string where "BRIGHT_WHITE = ESC # ''[97m''"
definition ENDC :: string where "ENDC = ESC # ''[0m''"
definition BG_RED :: string where "BG_RED = ESC # ''[41m''"
definition BLINK :: string where "BLINK = ESC # ''[5m''"

lemmas palette_defs =
  ESC_def BLACK_def RED_def GREEN_def YELLOW_def BLUE_def MAGENTA_def CYAN_def WHITE_def
  BRIGHT_RED_def BRIGHT_GREEN_def BRIGHT_YELLOW_def BRIGHT_BLUE_def BRIGHT_MAGENTA_def
  BRIGHT_CYAN_def BRIGHT_WHITE_def ENDC_def BG_RED_def BLINK_def

text \<open>The keyword arguments that \<^verbatim>\<open>format_string\<close> hands to \<^verbatim>\<open>str.format\<close>.\<close>

definition format_kwargs :: "(string \<times> string) list" where
  "format_kwargs =
    [(''BLACK'', BLACK), (''RED'', RED), (''GREEN'', GREEN), (''YELLOW'', YELLOW),
     (''BLUE'', BLUE), (''MAGENTA'', MAGENTA), (''CYAN'', CYAN), (''WHITE'', WHITE),
     (''BRIGHT_RED'', BRIGHT_RED), (''BRIGHT_GREEN'', BRIGHT_GREEN),
     (''BRIGHT_YELLOW'', BRIGHT_YELLOW), (''BRIGHT_BLUE'', BRIGHT_BLUE),
     (''BRIGHT_MAGENTA'', BRIGHT_MAGENTA), (''BRIGHT_CYAN'', BRIGHT_CYAN),
     (''BRIGHT_WHITE'', BRIGHT_WHITE), (''COLOR_NONE'', ENDC), (''BG_RED'', BG_RED),
     (''BLINK'', BLINK)]"

section \<open>Python's string operations\<close>

text \<open>
  \<^verbatim>\<open>s.replace(old, new)\<close> for a pattern \<open>old\<close> of two characters \<open>a\<close>, \<open>b\<close>: the
  occurrences are replaced from left to right and do not overlap.
\<close>

fun replace2 :: "char \<Rightarrow> char \<Rightarrow> string \<Rightarrow> string \<Rightarrow> string" where
  "replace2 a b new (x # y # zs) =
     (if x = a \<and> y = b then new @ replace2 a b new zs
      else x # replace2 a b new (y # zs))"
| "replace2 a b new xs = xs"

subsection \<open>\<^verbatim>\<open>str.format\<close> with keyword arguments only\<close>

text \<open>
  The model follows CPython's formatter. The text is read from left to right: literal
  text is copied, \<^verbatim>\<open>{{\<close> and \<^verbatim>\<open>}}\<close> give one brace, a single \<^verbatim>\<open>}\<close> or a final \<^verbatim>\<open>{\<close> is a
  \<open>ValueError\<close>, and any other \<^verbatim>\<open>{\<close> opens a replacement field. The first failure met
  is the exception of the call.

  The field name ends at the first \<^verbatim>\<open>}\<close>, \<^verbatim>\<open>:\<close> or \<^verbatim>\<open>!\<close> outside square brackets; the flag
  says whether the scan is inside \<^verbatim>\<open>[...]\<close>.
\<close>

fun scan_field_name :: "bool \<Rightarrow> string \<Rightarrow> (string \<times> char \<times> string) outcome" where
  "scan_field_name inb [] = Raises ValueError"
| "scan_field_name True (c # cs) =
     bind (scan_field_name (c \<noteq> CHR '']'') cs) (\<lambda>(n, t, r). Returns (c # n, t, r))"
| "scan_field_name False (c # cs) =
     (if c = CHR ''{'' then Raises ValueError
      else if c = CHR ''['' then
        bind (scan_field_name True cs) (\<lambda>(n, t, r). Returns (c # n, t, r))
      else if c = CHR ''}'' \<or> c = CHR '':'' \<or> c = CHR ''!'' then Returns ([], c, cs)
      else bind (scan_field_name False cs) (\<lambda>(n, t, r). Returns (c # n, t, r)))"

text \<open>The format specification runs to the brace that closes the field; braces nest.\<close>

fun scan_format_spec :: "nat \<Rightarrow> string \<Rightarrow> (string \<times> string) outcome" where
  "scan_format_spec count [] = Raises ValueError"
| "scan_format_spec count (c # cs) =
     (if c = CHR ''{'' then
        bind (scan_format_spec (Suc count) cs) (\<lambda>(s, r). Returns (c # s, r))
      else if c = CHR ''}'' then
        (if count - 1 = 0 then Returns ([], cs)
         else bind (scan_format_spec (count - 1) cs) (\<lambda>(s, r). Returns (c # s, r)))
      else bind (scan_format_spec count cs) (\<lambda>(s, r). Returns (c # s, r)))"

text \<open>
  \<^verbatim>\<open>parse_field\<close>: the text after an opening brace is split into the field name, the
  conversion character, the format specification and the text after the field.
\<close>

definition parse_field :: "string \<Rightarrow> (string \<times> char option \<times> string \<times> string) outcome" where
  "parse_field s =
     bind (scan_field_name False s) (\<lambda>(name, c, r).
       if c = CHR ''}'' then Returns (name, None, [], r)
       else if c = CHR ''!'' then
         (case r of
            [] \<Rightarrow> Raises ValueError
          | conv # r1 \<Rightarrow>
              (case r1 of
                 [] \<Rightarrow> Raises ValueError
               | c2 # r2 \<Rightarrow>
                   if c2 = CHR ''}'' then Returns (name, Some conv, [], r2)
                   else if c2 \<noteq> CHR '':'' then Raises ValueError
                   else bind (scan_format_spec 1 r2)
                          (\<lambda>(spec, r3). Returns (name, Some conv, spec, r3))))
       else bind (scan_format_spec 1 r) (\<lambda>(spec, r3). Returns (name, None, spec, r3)))"

definition is_digit :: "char \<Rightarrow> bool" where
  "is_digit c = (48 \<le> (of_char c :: nat) \<and> (of_char c :: nat) \<le> 57)"

fun decimal_value :: "int \<Rightarrow> string \<Rightarrow> int" where
  "decimal_value acc [] = acc"
| "decimal_value acc (c # cs) = decimal_value (acc * 10 + (of_char c - 48)) cs"

text \<open>
  \<^verbatim>\<open>get_field_object\<close> and the rendering of the object found. The first part of the field
  name runs to the first \<^verbatim>\<open>.\<close> or \<^verbatim>\<open>[\<close>. An empty or numeric first part indexes the positional
  arguments, of which \<^verbatim>\<open>format_string\<close> passes none: \<open>IndexError\<close> (a number beyond the
  platform's index type is a \<open>ValueError\<close>; between \<open>2^31\<close> and \<open>2^63\<close> that depends on the
  platform). Any other first part is looked up in the keyword arguments. A value that
  is found is written as it is when the field has no accessor, no conversion and no
  format specification.
\<close>

definition render_field :: "(string \<times> string) list \<Rightarrow> string \<Rightarrow> char option \<Rightarrow> string \<Rightarrow> string outcome" where
  "render_field kwargs name conv spec =
     (let first = takeWhile (\<lambda>c. c \<noteq> CHR ''.'' \<and> c \<noteq> CHR ''['') name;
          rest = dropWhile (\<lambda>c. c \<noteq> CHR ''.'' \<and> c \<noteq> CHR ''['') name
      in if list_all is_digit first then
           (if decimal_value 0 first < 2147483648 then Raises IndexError
            else if 9223372036854775808 \<le> decimal_value 0 first then Raises ValueError
            else Unmodelled)
         else
           (case map_of kwargs first of
              None \<Rightarrow> Raises KeyError
            | Some v \<Rightarrow> if rest = [] \<and> conv = None \<and> spec = [] then Returns v else Unmodelled))"



lemma bind_Returns_iff:
  "bind m f = Returns y \<longleftrightarrow> (\<exists>x. m = Returns x \<and> f x = Returns y)"
  by (cases m) auto

lemma scan_field_name_shorter:
  "scan_field_name inb s = Returns (n, t, r) \<Longrightarrow> length r < length s"
  by (induction inb s arbitrary: n t r rule: scan_field_name.induct)
     (fastforce simp: bind_Returns_iff split: if_splits)+

lemma scan_format_spec_shorter:
  "scan_format_spec k s = Returns (sp, r) \<Longrightarrow> length r < length s"
  by (induction k s arbitrary: sp r rule: scan_format_spec.induct)
     (fastforce simp: bind_Returns_iff split: if_splits)+

lemma parse_field_shorter:
  assumes "parse_field s = Returns (name, conv, spec, r)"
  shows "length r < length s"
  using assms scan_field_name_shorter scan_format_spec_shorter
  unfolding parse_field_def
  by (fastforce simp: bind_Returns_iff split: if_splits list.splits)

text \<open>\<^verbatim>\<open>template.format(**kwargs)\<close>.\<close>

function str_format :: "(string \<times> string) list \<Rightarrow> string \<Rightarrow> string outcome" where
  "str_format kwargs [] = Returns []"
| "str_format kwargs (c # cs) =
     (if c = CHR ''{'' then
        (case cs of
           [] \<Rightarrow> Raises ValueError
         | d # ds \<Rightarrow>
             if d = CHR ''{'' then bind (str_format kwargs ds) (\<lambda>out. Returns (c # out))
             else
               (case parse_field cs of
                  Returns (name, conv, spec, r) \<Rightarrow>
                    bind (render_field kwargs name conv spec) (\<lambda>v.
                      bind (str_format kwargs r) (\<lambda>out. Returns (v @ out)))
                | Raises e \<Rightarrow> Raises e
                | Unmodelled \<Rightarrow> Unmodelled))
      else if c = CHR ''}'' then
        (case cs of
           [] \<Rightarrow> Raises ValueError
         | d # ds \<Rightarrow>
             if d = CHR ''}'' then bind (str_format kwargs ds) (\<lambda>out. Returns (c # out))
             else Raises ValueError)
      else bind (str_format kwargs cs) (\<lambda>out. Returns (c # out)))"
  by pat_completeness auto
termination
proof (relation "measure (\<lambda>(k, s). length s)")
  show "wf (measure (\<lambda>(k :: (string \<times> string) list, s :: string). length s))" by simp
next
  fix kwargs :: "(string \<times> string) list" and c d :: char and cs ds :: string
  assume "cs = d # ds"
  then show "((kwargs, ds), kwargs, c # cs) \<in> measure (\<lambda>(k, s). length s)" by simp
next
  fix kwargs :: "(string \<times> string) list" and c d :: char and cs ds r spec name :: string
    and x2 :: "string \<times> char option \<times> string \<times> string" and y :: "char option \<times> string \<times> string"
    and conv :: "char option" and z :: "string \<times> string" and v :: string
  assume "parse_field cs = Returns x2" "(name, y) = x2" "(conv, z) = y" "(spec, r) = z"
  then have "parse_field cs = Returns (name, conv, spec, r)" by simp
  then have "length r < length cs" by (rule parse_field_shorter)
  then show "((kwargs, r), kwargs, c # cs) \<in> measure (\<lambda>(k, s). length s)" by simp
next
  fix kwargs :: "(string \<times> string) list" and c d :: char and cs ds :: string
  assume "cs = d # ds"
  then show "((kwargs, ds), kwargs, c # cs) \<in> measure (\<lambda>(k, s). length s)" by simp
next
  fix kwargs :: "(string \<times> string) list" and c :: char and cs :: string
  show "((kwargs, cs), kwargs, c # cs) \<in> measure (\<lambda>(k, s). length s)" by simp
qed

section \<open>format_string\<close>

text \<open>
  \<^verbatim>\<open>format_string(msg)\<close>: the two characters backslash, \<^verbatim>\<open>n\<close> become a newline, doubled
  braces are collapsed, the colour names are substituted, and \<^verbatim>\<open>ENDC\<close> is appended. Of the
  exceptions of the substitution only \<open>KeyError\<close> is caught, and then the text is left as
  it was before the substitution.
\<close>

definition collapse :: "string \<Rightarrow> string" where
  "collapse msg =
     replace2 (CHR ''}'') (CHR ''}'') ''}''
       (replace2 (CHR ''{'') (CHR ''{'') ''{''
          (replace2 (CHR 0x5C) (CHR ''n'') [CHR 0x0A] msg))"

definition format_string :: "string \<Rightarrow> string outcome" where
  "format_string msg =
     (let output = collapse msg
      in case str_format format_kwargs output of
           Returns out \<Rightarrow> Returns (out @ ENDC)
         | Raises e \<Rightarrow> if e = KeyError then Returns (output @ ENDC) else Raises e
         | Unmodelled \<Rightarrow> Unmodelled)"


text \<open>\<^verbatim>\<open>s.upper()\<close> and \<^verbatim>\<open>sep.join(items)\<close>.\<close>

definition upper_char :: "char \<Rightarrow> char" where
  "upper_char c =
     (if 97 \<le> (of_char c :: nat) \<and> (of_char c :: nat) \<le> 122
      then char_of ((of_char c :: nat) - 32) else c)"

definition upper :: "string \<Rightarrow> string" where
  "upper s = map upper_char s"

fun join :: "string \<Rightarrow> string list \<Rightarrow> string" where
  "join sep [] = []"
| "join sep [x] = x"
| "join sep (x # y # ys) = x @ sep @ join sep (y # ys)"

section \<open>display_message\<close>

text \<open>
  \<^verbatim>\<open>display_message(*msgs)\<close> joins its arguments with single spaces, formats the result
  and prints it: the value is the text written to standard output.
\<close>

definition display_message :: "string list \<Rightarrow> string outcome" where
  "display_message msgs =
     bind (format_string (join '' '' msgs)) (\<lambda>msg. Returns (msg @ [CHR 0x0A]))"

section \<open>multiple_choice_user_input\<close>

text \<open>
  What \<^verbatim>\<open>input(prompt)\<close> meets: a line that was typed, or the interrupt key. When the
  list of events is used up, standard input is at its end and \<^verbatim>\<open>input\<close> raises
  \<open>EOFError\<close>.
\<close>

datatype keyboard = Line string | Interrupt

text \<open>
  The \<^verbatim>\<open>while\<close> loop. Its condition compares \<^verbatim>\<open>result.upper()\<close> with the list
  \<^verbatim>\<open>legal_answers\<close> as the caller passed it, and with the upper-cased alias keys. The
  state is the current \<^verbatim>\<open>result\<close>, the events still to come and the text written so far.
\<close>

fun ask_loop ::
  "string list \<Rightarrow> string \<Rightarrow> string list \<Rightarrow> string list \<Rightarrow> string option \<Rightarrow>
   string \<Rightarrow> keyboard list \<Rightarrow> string \<Rightarrow> (string \<times> string) outcome" where
  "ask_loop msgs options_str legal_answers alternate_options dflt result [] out =
     (if upper result \<notin> set legal_answers \<and> upper result \<notin> set alternate_options then
        bind (display_message (msgs @ [options_str])) (\<lambda>shown.
          bind (case dflt of
                  None \<Rightarrow> Returns ''> ''
                | Some d \<Rightarrow> format_string (''({BRIGHT_YELLOW}'' @ upper d @ ''{COLOR_NONE}) > ''))
            (\<lambda>prompt. Raises EOFError))
      else Returns (result, out))"
| "ask_loop msgs options_str legal_answers alternate_options dflt result (k # ks) out =
     (if upper result \<notin> set legal_answers \<and> upper result \<notin> set alternate_options then
        bind (display_message (msgs @ [options_str])) (\<lambda>shown.
          bind (case dflt of
                  None \<Rightarrow> Returns ''> ''
                | Some d \<Rightarrow> format_string (''({BRIGHT_YELLOW}'' @ upper d @ ''{COLOR_NONE}) > ''))
            (\<lambda>prompt.
               case k of
                 Interrupt \<Rightarrow> Raises SystemExit
               | Line typed \<Rightarrow>
                   ask_loop msgs options_str legal_answers alternate_options dflt
                     (if typed = [] \<and> dflt \<noteq> None then upper (the dflt) else typed)
                     ks (out @ shown @ prompt)))
      else Returns (result, out))"

text \<open>
  The whole function. The dictionary \<^verbatim>\<open>alternate_legal_answers\<close> is a list of pairs in
  insertion order; in \<^verbatim>\<open>alternate_legal_answers_upper\<close> a later key overwrites an earlier
  one with the same upper-case form. The value is the answer returned and the text
  written to standard output. The parameter \<^verbatim>\<open>default\<close> is written \<open>dflt\<close>.
\<close>

definition multiple_choice_user_input ::
  "string list \<Rightarrow> string list \<Rightarrow> (string \<times> string) list option \<Rightarrow> string option \<Rightarrow> int \<Rightarrow>
   keyboard list \<Rightarrow> (string \<times> string) outcome" where
  "multiple_choice_user_input msgs legal_answers alternate_legal_answers dflt blank_lines stdin =
     (let options = map upper legal_answers in
      if (case alternate_legal_answers of
            None \<Rightarrow> False
          | Some d \<Rightarrow> \<not> list_all (\<lambda>(key, v). upper v \<in> set options) d)
      then Raises AssertionError
      else if (case dflt of None \<Rightarrow> False | Some d \<Rightarrow> upper d \<notin> set options)
      then Raises AssertionError
      else
        let alternate_options =
              (case alternate_legal_answers of
                 None \<Rightarrow> []
               | Some d \<Rightarrow> map (\<lambda>(key, v). upper key) d);
            alternate_legal_answers_upper =
              (case alternate_legal_answers of
                 None \<Rightarrow> Map.empty
               | Some d \<Rightarrow> map_of (rev (map (\<lambda>(key, v). (upper key, v)) d)));
            options_str = ''('' @ join '','' options @ '')''
        in
          bind (if blank_lines > 0
                then display_message [concat (replicate (nat blank_lines) [CHR 0x0A])]
                else Returns [])
            (\<lambda>blank.
              bind (ask_loop msgs options_str legal_answers alternate_options dflt [] stdin blank)
                (\<lambda>(result, out).
                   if upper result \<in> set alternate_options then
                     (case alternate_legal_answers_upper (upper result) of
                        None \<Rightarrow> Raises KeyError
                      | Some target \<Rightarrow> Returns (upper target, out))
                   else Returns (upper result, out))))"

section \<open>format_boolean\<close>

text \<open>
  The argument \<^verbatim>\<open>value\<close> is a Python object: a \<^verbatim>\<open>bool\<close>, a \<^verbatim>\<open>str\<close>, or something else
  (an \<^verbatim>\<open>int\<close> stands for the other types), which the assertion refuses.
\<close>

datatype pyobject = PyBool bool | PyStr string | PyInt int

fun str_int_digits :: "nat \<Rightarrow> string" where
  "str_int_digits n =
     (if n < 10 then [char_of (48 + n)]
      else str_int_digits (n div 10) @ [char_of (48 + n mod 10)])"

definition str_int :: "int \<Rightarrow> string" where
  "str_int i = (if i < 0 then CHR ''-'' # str_int_digits (nat (- i)) else str_int_digits (nat i))"

fun str_object :: "pyobject \<Rightarrow> string" where
  "str_object (PyBool b) = (if b then ''True'' else ''False'')"
| "str_object (PyStr s) = s"
| "str_object (PyInt i) = str_int i"

definition format_boolean :: "pyobject \<Rightarrow> bool \<Rightarrow> bool \<Rightarrow> string outcome" where
  "format_boolean val colorize invert_color =
     (if \<not> (case val of
               PyBool b \<Rightarrow> True
             | PyStr s \<Rightarrow> upper s = ''TRUE'' \<or> upper s = ''FALSE''
             | PyInt i \<Rightarrow> False)
      then Raises AssertionError
      else
        let (color, return_value) =
              (if upper (str_object val) = ''TRUE'' then (''BRIGHT_GREEN'', ''Yes'')
               else (''BRIGHT_RED'', ''No''))
        in if colorize then format_string (''{{'' @ color @ ''}}'' @ return_value)
           else Returns return_value)"

section \<open>Python floats\<close>

text \<open>
  A Python \<^verbatim>\<open>float\<close> is an IEEE 754 binary64 number. A finite float is modelled by its
  sign (\<open>True\<close> for negative, so that the two zeros differ) and its magnitude, the exact
  rational it denotes. Arithmetic rounds the exact result to the nearest float, ties to
  the even significand.

  \<open>round_half_even\<close> rounds a rational to the nearest integer, ties to even; \<open>ilog2 q\<close> is
  the exponent \<open>e\<close> with \<open>2^e \<le> q < 2^(e+1)\<close> of a positive \<open>q\<close>; \<open>fl q\<close> is the multiple of
  \<open>2^(e-52)\<close> (of \<open>2^-1074\<close> in the subnormal range) nearest to \<open>q\<close>. A result of \<open>fl\<close> that
  reaches \<open>2^1024\<close> is beyond the largest float.
\<close>

datatype pyfloat = Finite bool rat | Infinite bool | NaN

definition round_half_even :: "rat \<Rightarrow> int" where
  "round_half_even y =
     (let f = \<lfloor>y\<rfloor>; r = y - of_int f
      in if r < 1 / 2 then f else if 1 / 2 < r then f + 1 else if even f then f else f + 1)"

function bit_length :: "int \<Rightarrow> int" where
  "bit_length n = (if n \<le> 0 then 0 else 1 + bit_length (n div 2))"
  by pat_completeness auto
termination
  by (relation "measure nat") auto

definition pow2 :: "int \<Rightarrow> rat" where
  "pow2 e = (if 0 \<le> e then 2 ^ nat e else 1 / 2 ^ nat (- e))"

definition ilog2 :: "rat \<Rightarrow> int" where
  "ilog2 q =
     (let (n, d) = quotient_of q; k = bit_length n - bit_length d
      in if pow2 k \<le> q then k else k - 1)"

definition fl :: "rat \<Rightarrow> rat" where
  "fl q =
     (if q = 0 then 0
      else let s = max (ilog2 q - 52) (- 1074)
           in of_int (round_half_even (q / pow2 s)) * pow2 s)"

definition pack :: "bool \<Rightarrow> rat \<Rightarrow> pyfloat" where
  "pack sign q = (let m = fl q in if 2 ^ 1024 \<le> m then Infinite sign else Finite sign m)"

text \<open>\<^verbatim>\<open>float(i)\<close> for an \<^verbatim>\<open>int\<close>, as every mixed operation applies it to its \<^verbatim>\<open>int\<close> operand.\<close>

definition float_of_int :: "int \<Rightarrow> pyfloat outcome" where
  "float_of_int i =
     (case pack (i < 0) (of_int \<bar>i\<bar>) of
        Finite s m \<Rightarrow> Returns (Finite s m)
      | Infinite s \<Rightarrow> Raises OverflowError
      | NaN \<Rightarrow> Raises OverflowError)"

text \<open>\<^verbatim>\<open>a / b\<close> for two \<^verbatim>\<open>int\<close>s: the exact quotient, rounded once.\<close>

definition int_truediv :: "int \<Rightarrow> int \<Rightarrow> pyfloat outcome" where
  "int_truediv a b =
     (if b = 0 then Raises ZeroDivisionError
      else case pack ((a < 0) \<noteq> (b < 0)) (of_int \<bar>a\<bar> / of_int \<bar>b\<bar>) of
             Finite s m \<Rightarrow> Returns (Finite s m)
           | Infinite s \<Rightarrow> Raises OverflowError
           | NaN \<Rightarrow> Raises OverflowError)"

text \<open>\<^verbatim>\<open>x * y\<close>, \<^verbatim>\<open>x / y\<close>, \<^verbatim>\<open>x + y\<close> and \<^verbatim>\<open>x - y\<close> for two floats.\<close>

fun float_mul :: "pyfloat \<Rightarrow> pyfloat \<Rightarrow> pyfloat" where
  "float_mul (Finite s1 m1) (Finite s2 m2) = pack (s1 \<noteq> s2) (m1 * m2)"
| "float_mul (Finite s1 m1) (Infinite s2) = (if m1 = 0 then NaN else Infinite (s1 \<noteq> s2))"
| "float_mul (Infinite s1) (Finite s2 m2) = (if m2 = 0 then NaN else Infinite (s1 \<noteq> s2))"
| "float_mul (Infinite s1) (Infinite s2) = Infinite (s1 \<noteq> s2)"
| "float_mul NaN y = NaN"
| "float_mul x NaN = NaN"

fun is_zero :: "pyfloat \<Rightarrow> bool" where
  "is_zero (Finite s m) = (m = 0)"
| "is_zero x = False"

fun float_div :: "pyfloat \<Rightarrow> pyfloat \<Rightarrow> pyfloat outcome" where
  "float_div x (Finite s2 m2) =
     (if m2 = 0 then Raises ZeroDivisionError
      else case x of
             Finite s1 m1 \<Rightarrow> Returns (pack (s1 \<noteq> s2) (m1 / m2))
           | Infinite s1 \<Rightarrow> Returns (Infinite (s1 \<noteq> s2))
           | NaN \<Rightarrow> Returns NaN)"
| "float_div (Finite s1 m1) (Infinite s2) = Returns (Finite (s1 \<noteq> s2) 0)"
| "float_div (Infinite s1) (Infinite s2) = Returns NaN"
| "float_div NaN (Infinite s2) = Returns NaN"
| "float_div x NaN = Returns NaN"

fun float_neg :: "pyfloat \<Rightarrow> pyfloat" where
  "float_neg (Finite s m) = Finite (\<not> s) m"
| "float_neg (Infinite s) = Infinite (\<not> s)"
| "float_neg NaN = NaN"

definition signed :: "bool \<Rightarrow> rat \<Rightarrow> rat" where
  "signed s m = (if s then - m else m)"

fun float_add :: "pyfloat \<Rightarrow> pyfloat \<Rightarrow> pyfloat" where
  "float_add (Finite s1 m1) (Finite s2 m2) =
     (let v = signed s1 m1 + signed s2 m2
      in if v = 0 then Finite (s1 \<and> s2) 0 else pack (v < 0) \<bar>v\<bar>)"
| "float_add (Finite s1 m1) (Infinite s2) = Infinite s2"
| "float_add (Infinite s1) (Finite s2 m2) = Infinite s1"
| "float_add (Infinite s1) (Infinite s2) = (if s1 = s2 then Infinite s1 else NaN)"
| "float_add NaN y = NaN"
| "float_add x NaN = NaN"

definition float_sub :: "pyfloat \<Rightarrow> pyfloat \<Rightarrow> pyfloat" where
  "float_sub x y = float_add x (float_neg y)"

text \<open>\<^verbatim>\<open>x == y\<close> for two floats: the zeros are equal, a NaN equals nothing.\<close>

fun float_eq :: "pyfloat \<Rightarrow> pyfloat \<Rightarrow> bool" where
  "float_eq (Finite s1 m1) (Finite s2 m2) = (signed s1 m1 = signed s2 m2)"
| "float_eq (Infinite s1) (Infinite s2) = (s1 = s2)"
| "float_eq x y = False"

text \<open>
  \<^verbatim>\<open>round(x, ndigits)\<close> for \<open>ndigits\<close> of 0 or more: the decimal with that many digits
  after the point nearest to the exact value of \<open>x\<close> (ties to even), then the float
  nearest to that decimal. Infinities and NaN are returned as they are.
\<close>

fun float_round :: "pyfloat \<Rightarrow> nat \<Rightarrow> pyfloat outcome" where
  "float_round (Finite s m) ndigits =
     (case pack s (of_int (round_half_even (m * 10 ^ ndigits)) / 10 ^ ndigits) of
        Finite s' m' \<Rightarrow> Returns (Finite s' m')
      | Infinite s' \<Rightarrow> Raises OverflowError
      | NaN \<Rightarrow> Raises OverflowError)"
| "float_round x ndigits = Returns x"

text \<open>
  The conversions of a float to an \<^verbatim>\<open>int\<close>: \<^verbatim>\<open>int(x)\<close> truncates, \<^verbatim>\<open>round(x)\<close> rounds
  half to even, \<^verbatim>\<open>math.floor(x)\<close> and \<^verbatim>\<open>math.ceil(x)\<close>. An infinity is an
  \<open>OverflowError\<close>, a NaN a \<open>ValueError\<close>.
\<close>

fun int_of_float :: "pyfloat \<Rightarrow> int outcome" where
  "int_of_float (Finite s m) = Returns (if s then - \<lfloor>m\<rfloor> else \<lfloor>m\<rfloor>)"
| "int_of_float (Infinite s) = Raises OverflowError"
| "int_of_float NaN = Raises ValueError"

fun round_to_int :: "pyfloat \<Rightarrow> int outcome" where
  "round_to_int (Finite s m) = Returns (if s then - round_half_even m else round_half_even m)"
| "round_to_int (Infinite s) = Raises OverflowError"
| "round_to_int NaN = Raises ValueError"

fun math_floor :: "pyfloat \<Rightarrow> int outcome" where
  "math_floor (Finite s m) = Returns \<lfloor>signed s m\<rfloor>"
| "math_floor (Infinite s) = Raises OverflowError"
| "math_floor NaN = Raises ValueError"

fun math_ceil :: "pyfloat \<Rightarrow> int outcome" where
  "math_ceil (Finite s m) = Returns \<lceil>signed s m\<rceil>"
| "math_ceil (Infinite s) = Raises OverflowError"
| "math_ceil NaN = Raises ValueError"

text \<open>
  \<^verbatim>\<open>str(x)\<close> for a float, the shortest decimal that reads back as \<open>x\<close>. Below \<open>10^14\<close> the
  floats are less than a tenth apart, so a float that is the nearest one to a decimal
  with one digit after the point is printed as that decimal; every value that
  \<^verbatim>\<open>round(x, 1)\<close> returns below \<open>10^14\<close> is of this kind. The other finite floats (more
  digits, or exponent notation) are not modelled.
\<close>

fun float_str :: "pyfloat \<Rightarrow> string outcome" where
  "float_str (Finite s m) =
     (let t = round_half_even (m * 10)
      in if m < 100000000000000 \<and> fl (of_int t / 10) = m
         then Returns ((if s then ''-'' else []) @ str_int (t div 10) @ ''.'' @ str_int (t mod 10))
         else Unmodelled)"
| "float_str (Infinite s) = Returns ((if s then ''-'' else []) @ ''inf'')"
| "float_str NaN = Returns ''nan''"

text \<open>
  \<^verbatim>\<open>s * n\<close> for a string and an \<^verbatim>\<open>int\<close> (nothing for \<open>n \<le> 0\<close>), and the slices \<^verbatim>\<open>s[:k]\<close>
  and \<^verbatim>\<open>s[k:]\<close>, where a negative \<open>k\<close> counts from the end. The limits of memory and of the
  platform's index type are not modelled.
\<close>

definition str_repeat :: "string \<Rightarrow> int \<Rightarrow> string" where
  "str_repeat s n = concat (replicate (nat n) s)"

definition slice_index :: "string \<Rightarrow> int \<Rightarrow> nat" where
  "slice_index s k = (if k < 0 then nat (int (length s) + k) else nat k)"

definition slice_to :: "string \<Rightarrow> int \<Rightarrow> string" where
  "slice_to s k = take (slice_index s k) s"

definition slice_from :: "string \<Rightarrow> int \<Rightarrow> string" where
  "slice_from s k = drop (slice_index s k) s"

section \<open>display_progress\<close>

text \<open>
  The function is split along its source lines; each piece keeps the name of the variable
  it computes. \<^verbatim>\<open>count\<close>, \<^verbatim>\<open>total\<close> and \<^verbatim>\<open>width\<close> are \<^verbatim>\<open>int\<close>s, \<^verbatim>\<open>old_percent\<close> is
  \<^verbatim>\<open>None\<close> or a float. The parameter \<^verbatim>\<open>total\<close> is written \<open>total'\<close>.

  \<^verbatim>\<open>percent = round((count * 1.0) / total * 100, 1)\<close>
\<close>

definition percent_of :: "int \<Rightarrow> int \<Rightarrow> pyfloat outcome" where
  "percent_of count total' =
     bind (float_of_int count) (\<lambda>c.
       bind (float_of_int total') (\<lambda>t.
         bind (float_div (float_mul c (Finite False 1)) t) (\<lambda>q.
           float_round (float_mul q (Finite False 100)) 1)))"

text \<open>
  \<^verbatim>\<open>done_str = "{0}".format(completed_char * (int(round(percent / (100 / width), 0))))\<close>
  and
  \<^verbatim>\<open>empty_str = "{0}".format(empty_char * (width - (int(round(percent / (100 / width))))))\<close>.
  The first rounds to a float and truncates it, the second rounds to an \<^verbatim>\<open>int\<close>;
  \<^verbatim>\<open>"{0}".format(s)\<close> is \<open>s\<close>.
\<close>

definition done_count :: "pyfloat \<Rightarrow> int \<Rightarrow> int outcome" where
  "done_count percent width =
     bind (int_truediv 100 width) (\<lambda>d.
       bind (float_div percent d) (\<lambda>y.
         bind (float_round y 0) int_of_float))"

definition empty_count :: "pyfloat \<Rightarrow> int \<Rightarrow> int outcome" where
  "empty_count percent width =
     bind (int_truediv 100 width) (\<lambda>d.
       bind (float_div percent d) (\<lambda>y.
         bind (round_to_int y) (\<lambda>n. Returns (width - n))))"

definition done_str :: "pyfloat \<Rightarrow> int \<Rightarrow> string \<Rightarrow> string outcome" where
  "done_str percent width completed_char =
     bind (done_count percent width) (\<lambda>n. Returns (str_repeat completed_char n))"

definition empty_str :: "pyfloat \<Rightarrow> int \<Rightarrow> string \<Rightarrow> string outcome" where
  "empty_str percent width empty_char =
     bind (empty_count percent width) (\<lambda>n. Returns (str_repeat empty_char n))"

text \<open>
  \<^verbatim>\<open>count_str = " (" + BRIGHT_WHITE + str(count) + ENDC + " of " + BRIGHT_WHITE + str(total) + ENDC + ")"\<close>
\<close>

definition count_str :: "int \<Rightarrow> int \<Rightarrow> string" where
  "count_str count total' =
     '' ('' @ BRIGHT_WHITE @ str_int count @ ENDC @ '' of '' @ BRIGHT_WHITE @ str_int total'
       @ ENDC @ '')''"

text \<open>
  \<^verbatim>\<open>percent_str = "{0}".format(" " * (4 - len(str(int(math.floor(percent)))))) + str(percent) + "%" + " "\<close>
\<close>

definition percent_str :: "pyfloat \<Rightarrow> string outcome" where
  "percent_str percent =
     bind (math_floor percent) (\<lambda>whole.
       bind (float_str percent) (\<lambda>shown.
         Returns (str_repeat '' '' (4 - int (length (str_int whole))) @ shown @ ''%'' @ '' '')))"

text \<open>
  \<^verbatim>\<open>progress_left = progress_bar_str[:int((len(progress_bar_str) / 2) - math.floor(len(percent_str) / 2)) + 2]\<close>
  and
  \<^verbatim>\<open>progress_right = progress_bar_str[int((len(progress_bar_str) / 2) + math.ceil(len(percent_str) / 2)) + 2:]\<close>,
  where \<open>bar\<close> is the bracketed bar and \<open>label\<close> is \<^verbatim>\<open>percent_str\<close>.
\<close>

definition progress_left :: "string \<Rightarrow> string \<Rightarrow> string outcome" where
  "progress_left bar label =
     bind (int_truediv (int (length bar)) 2) (\<lambda>half.
       bind (int_truediv (int (length label)) 2) (\<lambda>half_label.
         bind (math_floor half_label) (\<lambda>n.
           bind (float_of_int n) (\<lambda>nf.
             bind (int_of_float (float_sub half nf)) (\<lambda>k.
               Returns (slice_to bar (k + 2)))))))"

definition progress_right :: "string \<Rightarrow> string \<Rightarrow> string outcome" where
  "progress_right bar label =
     bind (int_truediv (int (length bar)) 2) (\<lambda>half.
       bind (int_truediv (int (length label)) 2) (\<lambda>half_label.
         bind (math_ceil half_label) (\<lambda>n.
           bind (float_of_int n) (\<lambda>nf.
             bind (int_of_float (float_add half nf)) (\<lambda>k.
               Returns (slice_from bar (k + 2)))))))"

text \<open>
  The composed line, the last value of the variable \<^verbatim>\<open>progress_bar_str\<close>: the left part
  of the bar, the label in bright yellow, the right part of the bar, the count and the
  caller's suffix.
\<close>

definition progress_bar_str ::
  "int \<Rightarrow> int \<Rightarrow> pyfloat \<Rightarrow> int \<Rightarrow> string \<Rightarrow> string \<Rightarrow> string \<Rightarrow> string outcome" where
  "progress_bar_str count total' percent width completed_char empty_char postpend_str =
     bind (done_str percent width completed_char) (\<lambda>done.
       bind (empty_str percent width empty_char) (\<lambda>empty.
         bind (percent_str percent) (\<lambda>label.
           bind (progress_left (''['' @ done @ empty @ '']'') label) (\<lambda>left.
             bind (progress_right (''['' @ done @ empty @ '']'') label) (\<lambda>right.
               Returns (left @ BRIGHT_YELLOW @ label @ ENDC @ right @ count_str count total'
                        @ postpend_str))))))"

text \<open>
  The whole function: the percentage it returns and the text it writes to standard
  output, which is empty when the display is not updated and otherwise the line followed
  by one backspace for each of its characters.
\<close>

definition display_progress ::
  "int \<Rightarrow> int \<Rightarrow> pyfloat option \<Rightarrow> int \<Rightarrow> string \<Rightarrow> string \<Rightarrow> string \<Rightarrow>
   (pyfloat \<times> string) outcome" where
  "display_progress count total' old_percent width completed_char empty_char postpend_str =
     (let width' = (if width mod 2 \<noteq> 0 then width - 1 else width) in
      bind (percent_of count total') (\<lambda>percent.
        if (case old_percent of None \<Rightarrow> False | Some old \<Rightarrow> float_eq percent old)
           \<and> \<not> is_zero percent
        then Returns (percent, [])
        else
          bind (progress_bar_str count total' percent width' completed_char empty_char
                  postpend_str)
            (\<lambda>line. Returns (percent, line @ replicate (length line) (CHR 0x08)))))"

text \<open>The text a call wrote: nothing when it raised.\<close>

definition written :: "(pyfloat \<times> string) outcome \<Rightarrow> string" where
  "written r = (case r of Returns (p, out) \<Rightarrow> out | Raises e \<Rightarrow> [] | Unmodelled \<Rightarrow> [])"

text \<open>
  The visible characters of a line are those outside its escape codes; an escape code runs
  from the escape character to the letter \<^verbatim>\<open>m\<close> that ends it, as every code of the palette
  does. The flag says whether the scan is inside an escape code.
\<close>

fun visible :: "bool \<Rightarrow> string \<Rightarrow> nat" where
  "visible inside [] = 0"
| "visible False (c # cs) = (if c = ESC then visible True cs else Suc (visible False cs))"
| "visible True (c # cs) = (if c = CHR ''m'' then visible False cs else visible True cs)"

definition visible_length :: "string \<Rightarrow> nat" where
  "visible_length s = visible False s"
section \<open>Properties of format_string\<close>

lemmas format_eval =
  format_string_def collapse_def format_kwargs_def parse_field_def render_field_def is_digit_def

lemma replace2_absent: "a \<notin> set s \<Longrightarrow> replace2 a b new s = s"
  by (induction a b new s rule: replace2.induct) auto

lemma replace2_set: "set (replace2 a b new s) \<subseteq> set s \<union> set new"
  by (induction a b new s rule: replace2.induct) auto

lemma replace2_Cons_other: "x \<noteq> a \<Longrightarrow> replace2 a b new (x # w) = x # replace2 a b new w"
  by (cases w) auto

lemma replace2_Cons_next: "w \<noteq> [] \<Longrightarrow> hd w \<noteq> b \<Longrightarrow> replace2 a b new (x # w) = x # replace2 a b new w"
  by (cases w) auto

lemma replace2_single:
  "t = [] \<or> hd t \<noteq> b \<Longrightarrow> replace2 a b new (v # t) = v # replace2 a b new t"
  by (cases t) auto

lemma replace2_hd:
  "y \<noteq> b \<Longrightarrow> n \<noteq> b \<Longrightarrow> hd (replace2 a b [n] (y # zs) @ t) \<noteq> b"
  by (cases zs) auto

lemma replace2_nonempty: "replace2 a b [n] (y # zs) \<noteq> []"
  by (cases zs) auto

lemma replace2_again:
  assumes "n \<noteq> a" "n \<noteq> b" "t = [] \<or> hd t \<noteq> b"
  shows "replace2 a b [n] (replace2 a b [n] s @ t) = replace2 a b [n] s @ replace2 a b [n] t"
  using assms
proof (induction a b "[n]" s rule: replace2.induct)
  case (1 a b x y zs)
  show ?case
  proof (cases "x = a \<and> y = b")
    case True
    then have "replace2 a b [n] (x # y # zs) = n # replace2 a b [n] zs" by simp
    moreover have "replace2 a b [n] (n # (replace2 a b [n] zs @ t))
        = n # replace2 a b [n] (replace2 a b [n] zs @ t)"
      using 1(3) by (simp add: replace2_Cons_other)
    moreover have "replace2 a b [n] (replace2 a b [n] zs @ t)
        = replace2 a b [n] zs @ replace2 a b [n] t"
      using 1(1) [OF True] 1(3,4,5) by simp
    ultimately show ?thesis by simp
  next
    case False
    then have unf: "replace2 a b [n] (x # y # zs) = x # replace2 a b [n] (y # zs)" by auto
    have ih: "replace2 a b [n] (replace2 a b [n] (y # zs) @ t)
        = replace2 a b [n] (y # zs) @ replace2 a b [n] t"
      using 1(2) [OF False] 1(3,4,5) by simp
    have ne: "replace2 a b [n] (y # zs) @ t \<noteq> []" using replace2_nonempty by simp
    have "replace2 a b [n] (x # (replace2 a b [n] (y # zs) @ t))
        = x # replace2 a b [n] (replace2 a b [n] (y # zs) @ t)"
    proof (cases "x = a")
      case True
      with False have "y \<noteq> b" by simp
      then have "hd (replace2 a b [n] (y # zs) @ t) \<noteq> b" using 1(4) by (rule replace2_hd)
      with ne show ?thesis by (rule replace2_Cons_next)
    next
      case False
      then show ?thesis by (rule replace2_Cons_other)
    qed
    with unf ih show ?thesis by simp
  qed
qed (simp_all add: replace2_single)

lemma str_format_literal:
  "CHR ''{'' \<notin> set s \<Longrightarrow> CHR ''}'' \<notin> set s \<Longrightarrow> str_format kw s = Returns s"
  by (induction s) auto


lemma collapse_no_braces:
  assumes "CHR ''{'' \<notin> set s" "CHR ''}'' \<notin> set s"
  shows "collapse s = replace2 (CHR 0x5C) (CHR ''n'') [CHR 0x0A] s"
    and "CHR ''{'' \<notin> set (collapse s)" and "CHR ''}'' \<notin> set (collapse s)"
proof -
  let ?r = "replace2 (CHR 0x5C) (CHR ''n'') [CHR 0x0A] s"
  have sub: "set ?r \<subseteq> set s \<union> set [CHR 0x0A]" by (rule replace2_set)
  have nb: "CHR ''{'' \<notin> set ?r" "CHR ''}'' \<notin> set ?r" using sub assms by auto
  then show c: "collapse s = ?r" by (simp add: collapse_def replace2_absent)
  show "CHR ''{'' \<notin> set (collapse s)" "CHR ''}'' \<notin> set (collapse s)" using c nb by simp_all
qed

lemma format_string_no_braces:
  assumes "CHR ''{'' \<notin> set s" "CHR ''}'' \<notin> set s"
  shows "format_string s = Returns (replace2 (CHR 0x5C) (CHR ''n'') [CHR 0x0A] s @ ENDC)"
  using collapse_no_braces [OF assms] by (simp add: format_string_def str_format_literal)

lemma ENDC_plain: "CHR ''{'' \<notin> set ENDC" "CHR ''}'' \<notin> set ENDC"
  "replace2 (CHR 0x5C) (CHR ''n'') [CHR 0x0A] ENDC = ENDC" "hd ENDC \<noteq> CHR ''n''"
  by (simp_all add: ENDC_def ESC_def)

text \<open>
  Claim C8, as amended. For every string \<open>s\<close> that contains no brace character, formatting
  twice gives the result of formatting once followed by one more reset code:
  \<^verbatim>\<open>format_string(format_string(s)) = format_string(s) + ENDC\<close>.
\<close>

theorem format_string_twice:
  assumes "CHR ''{'' \<notin> set s" and "CHR ''}'' \<notin> set s"
  shows "\<exists>r. format_string s = Returns r \<and> format_string r = Returns (r @ ENDC)"
proof -
  let ?nl = "replace2 (CHR 0x5C) (CHR ''n'') [CHR 0x0A]"
  let ?r = "?nl s @ ENDC"
  have first: "format_string s = Returns ?r" using assms by (rule format_string_no_braces)
  have sub: "set (?nl s) \<subseteq> set s \<union> set [CHR 0x0A]" by (rule replace2_set)
  have nb: "CHR ''{'' \<notin> set ?r" "CHR ''}'' \<notin> set ?r" using sub assms ENDC_plain(1,2) by auto
  have "?nl ?r = ?nl s @ ?nl ENDC"
    using ENDC_plain(4) by (intro replace2_again) simp_all
  then have again: "?nl ?r = ?r" using ENDC_plain(3) by simp
  have "format_string ?r = Returns (?nl ?r @ ENDC)" using nb by (rule format_string_no_braces)
  with again have "format_string ?r = Returns (?r @ ENDC)" by simp
  with first show ?thesis by blast
qed

text \<open>The theorem at a text with a backslash-n pair in it.\<close>

theorem format_string_twice_witness:
  "\<exists>r. format_string (''one'' @ [CHR 0x5C, CHR ''n''] @ ''two'') = Returns r
      \<and> format_string r = Returns (r @ ENDC)"
  using format_string_twice [of "''one'' @ [CHR 0x5C, CHR ''n''] @ ''two''"] by simp

text \<open>
  Claim C8 as it was stated speaks of every string without placeholders. The string of four
  opening braces has none; formatting it once gives one brace and the reset code, and
  formatting that again raises \<open>ValueError\<close>.
\<close>

theorem format_string_twice_counterexample:
  "\<not> (\<exists>r. format_string ''{{{{'' = Returns r \<and> format_string r = Returns (r @ ENDC))"
proof -
  have a: "format_string ''{{{{'' = Returns (''{'' @ ENDC)"
    by (simp add: format_eval)
  have b: "format_string (''{'' @ ENDC) = Raises ValueError"
    by (simp add: format_eval palette_defs)
  show ?thesis using a b by simp
qed












text \<open>
  Claim C10. Only the key-not-found failure of the substitution is suppressed: a text that
  is a single opening brace makes \<^verbatim>\<open>format_string\<close> raise \<open>ValueError\<close>, a positional
  placeholder makes it raise \<open>IndexError\<close>, and no text at all makes it raise \<open>KeyError\<close>.
\<close>

theorem format_string_only_catches_KeyError:
  "format_string ''{'' = Raises ValueError \<and> format_string ''{0}'' = Raises IndexError
   \<and> (\<forall>msg. format_string msg \<noteq> Raises KeyError)"
proof -
  have "format_string msg \<noteq> Raises KeyError" for msg
    by (simp add: format_string_def Let_def split: outcome.splits)
  moreover have "format_string ''{'' = Raises ValueError" by (simp add: format_eval)
  moreover have "format_string ''{0}'' = Raises IndexError" by (simp add: format_eval)
  ultimately show ?thesis by blast
qed


theorem format_string_only_catches_KeyError_witness:
  "format_string ''{'' = Raises ValueError \<and> format_string ''{0}'' = Raises IndexError
   \<and> format_string ''{UNKNOWN}'' \<noteq> Raises KeyError"
  using format_string_only_catches_KeyError by blast

section \<open>Properties of format_boolean\<close>

text \<open>
  Claim C1. \<^verbatim>\<open>format_boolean(True)\<close> is \<^verbatim>\<open>Yes\<close> in bright green followed by the reset code.
  \<^verbatim>\<open>format_boolean(False, invert_color=True)\<close> is \<^verbatim>\<open>No\<close> in bright red, not green: the
  function never reads \<^verbatim>\<open>invert_color\<close>.
\<close>

theorem format_boolean_ignores_invert_color:
  "format_boolean (PyBool True) True False = Returns (BRIGHT_GREEN @ ''Yes'' @ ENDC)
   \<and> format_boolean (PyBool False) True True = Returns (BRIGHT_RED @ ''No'' @ ENDC)
   \<and> format_boolean val colorize True = format_boolean val colorize False"
proof -
  have "format_boolean (PyBool True) True False = Returns (BRIGHT_GREEN @ ''Yes'' @ ENDC)"
    by code_simp
  moreover have "format_boolean (PyBool False) True True = Returns (BRIGHT_RED @ ''No'' @ ENDC)"
    by code_simp
  moreover have "format_boolean val colorize True = format_boolean val colorize False"
    by (simp add: format_boolean_def)
  ultimately show ?thesis by blast
qed

theorem format_boolean_ignores_invert_color_witness:
  "format_boolean (PyStr ''false'') True True = format_boolean (PyStr ''false'') True False
   \<and> format_boolean (PyBool False) True True = Returns (BRIGHT_RED @ ''No'' @ ENDC)"
  using format_boolean_ignores_invert_color [of "PyStr ''false''" True] by blast

section \<open>Properties of multiple_choice_user_input\<close>

text \<open>
  Claim C7. The loop compares the upper-cased input with \<^verbatim>\<open>legal_answers\<close> as given, not
  with its upper-cased copy \<^verbatim>\<open>options\<close>. With the legal answers \<^verbatim>\<open>yes\<close> and \<^verbatim>\<open>no\<close> no
  spelling of either is accepted and the prompt is repeated until the input ends; with the
  legal answers \<^verbatim>\<open>YES\<close> and \<^verbatim>\<open>NO\<close> the input \<^verbatim>\<open>yes\<close> is accepted and returned as
  \<^verbatim>\<open>YES\<close>.
\<close>

theorem multiple_choice_lower_case_never_accepted:
  "multiple_choice_user_input [''Continue?''] [''yes'', ''no''] None None 0
     [Line ''yes'', Line ''YES'', Line ''no'', Line ''NO''] = Raises EOFError
   \<and> multiple_choice_user_input [''Continue?''] [''YES'', ''NO''] None None 0 [Line ''yes'']
     = Returns (''YES'', ''Continue? (YES,NO)'' @ ENDC @ [CHR 0x0A] @ ''> '')"
  by code_simp

theorem multiple_choice_lower_case_never_accepted_witness:
  "multiple_choice_user_input [''Continue?''] [''yes'', ''no''] None None 0
     [Line ''yes'', Line ''YES'', Line ''no'', Line ''NO''] = Raises EOFError"
  using multiple_choice_lower_case_never_accepted by blast

end
